theory Spec2Isabelle
  imports Main "HOL-Library.AList"
begin

section \<open>The document tree\<close>

text \<open>
  The program (\<^verbatim>\<open>src/cdk-imports-swap.ts\<close>) works on the trees that \<^verbatim>\<open>JSON.parse\<close>
  returns. A mapping keeps its keys in enumeration order, so it is an association list.
  Numbers are the integers (fractions, exponents and the non-finite values that
  \<^verbatim>\<open>JSON.parse\<close> can produce from an overflowing literal are left out of the model).
  A value that may be \<^verbatim>\<open>undefined\<close> is a \<open>json option\<close>, with \<open>None\<close> for
  \<^verbatim>\<open>undefined\<close>.
\<close>

datatype json =
    JNull
  | JBool bool
  | JNum int
  | JStr string
  | JArr "json list"
  | JObj "(string \<times> json) list"

text \<open>
  A JavaScript object used as a dictionary: own keys in enumeration order. Names inherited
  from \<^verbatim>\<open>Object.prototype\<close> are not part of the model.
\<close>

type_synonym 'v dict = "(string \<times> 'v) list"

subsection \<open>Truthiness, property reads, string tests\<close>

fun truthy :: "json option \<Rightarrow> bool" where
  "truthy None = False"
| "truthy (Some JNull) = False"
| "truthy (Some (JBool b)) = b"
| "truthy (Some (JNum n)) = (n \<noteq> 0)"
| "truthy (Some (JStr s)) = (s \<noteq> [])"
| "truthy (Some (JArr xs)) = True"
| "truthy (Some (JObj kvs)) = True"

text \<open>
  \<^verbatim>\<open>v.name\<close> for a value \<open>v\<close> that is not \<^verbatim>\<open>null\<close>, for the names the program reads
  (\<^verbatim>\<open>Outputs\<close>, \<^verbatim>\<open>Export\<close>, \<^verbatim>\<open>Name\<close>, \<^verbatim>\<open>Value\<close>, \<^verbatim>\<open>Fn::ImportValue\<close>): only a mapping
  can hold one of them; arrays and primitives give \<^verbatim>\<open>undefined\<close>.
\<close>

fun get_prop :: "json \<Rightarrow> string \<Rightarrow> json option" where
  "get_prop (JObj kvs) name = map_of kvs name"
| "get_prop _ name = None"

text \<open>The same read on a value already known to be truthy (so neither \<^verbatim>\<open>undefined\<close> nor \<^verbatim>\<open>null\<close>).\<close>

fun get_member :: "json option \<Rightarrow> string \<Rightarrow> json option" where
  "get_member (Some v) name = get_prop v name"
| "get_member None name = None"

fun startsWith :: "string \<Rightarrow> string \<Rightarrow> bool" where
  "startsWith s [] = True"
| "startsWith [] (p # ps) = False"
| "startsWith (c # cs) (p # ps) = (c = p \<and> startsWith cs ps)"

fun str_includes :: "string \<Rightarrow> string \<Rightarrow> bool" where
  "str_includes [] sub = startsWith [] sub"
| "str_includes (c # cs) sub = (startsWith (c # cs) sub \<or> str_includes cs sub)"

subsection \<open>Numbers and property keys as strings\<close>

definition digit_char :: "nat \<Rightarrow> char" where
  "digit_char d = ''0123456789abcdef'' ! d"

function nat_to_string :: "nat \<Rightarrow> string" where
  "nat_to_string n =
     (if n < 10 then [digit_char n] else nat_to_string (n div 10) @ [digit_char (n mod 10)])"
  by pat_completeness auto
termination
  by (relation "measure id") auto

declare nat_to_string.simps [simp del]

definition int_to_string :: "int \<Rightarrow> string" where
  "int_to_string i = (if i < 0 then CHR ''-'' # nat_to_string (nat (- i)) else nat_to_string (nat i))"

fun join :: "string \<Rightarrow> string list \<Rightarrow> string" where
  "join sep [] = []"
| "join sep [x] = x"
| "join sep (x # y # ys) = x @ sep @ join sep (y # ys)"

text \<open>
  \<^verbatim>\<open>ToString\<close>, which JavaScript applies to a value used as a property key: an array joins
  its elements with commas (\<^verbatim>\<open>null\<close> elements as the empty string), a mapping is
  \<^verbatim>\<open>[object Object]\<close>, and \<^verbatim>\<open>undefined\<close> is the key \<^verbatim>\<open>undefined\<close>.
\<close>

fun ToString :: "json \<Rightarrow> string" where
  "ToString JNull = ''null''"
| "ToString (JBool b) = (if b then ''true'' else ''false'')"
| "ToString (JNum n) = int_to_string n"
| "ToString (JStr s) = s"
| "ToString (JArr xs) = join '','' (map (\<lambda>x. if x = JNull then [] else ToString x) xs)"
| "ToString (JObj kvs) = ''[object Object]''"

fun ToPropertyKey :: "json option \<Rightarrow> string" where
  "ToPropertyKey None = ''undefined''"
| "ToPropertyKey (Some v) = ToString v"

subsection \<open>Dictionaries in enumeration order\<close>

text \<open>
  An ordinary object enumerates its array-index keys first, in ascending numeric order,
  and then its other keys in the order they were created. Assigning to an existing key
  keeps its place.
\<close>

definition is_digit :: "char \<Rightarrow> bool" where
  "is_digit c = (48 \<le> (of_char c :: int) \<and> (of_char c :: int) \<le> 57)"

definition string_to_int :: "string \<Rightarrow> int" where
  "string_to_int s = foldl (\<lambda>a c. 10 * a + ((of_char c :: int) - 48)) 0 s"

definition is_array_index :: "string \<Rightarrow> bool" where
  "is_array_index k =
     (k \<noteq> [] \<and> list_all is_digit k \<and> (k = ''0'' \<or> hd k \<noteq> CHR ''0'')
      \<and> string_to_int k < 4294967295)"

fun insert_index :: "string \<Rightarrow> 'v \<Rightarrow> 'v dict \<Rightarrow> 'v dict" where
  "insert_index k v [] = [(k, v)]"
| "insert_index k v ((k', v') # rest) =
     (if is_array_index k' \<and> string_to_int k' < string_to_int k
      then (k', v') # insert_index k v rest
      else (k, v) # (k', v') # rest)"

definition dict_set :: "'v dict \<Rightarrow> string \<Rightarrow> 'v \<Rightarrow> 'v dict" where
  "dict_set d k v =
     (if k \<in> set (map fst d) then AList.update k v d
      else if is_array_index k then insert_index k v d
      else d @ [(k, v)])"

text \<open>\<^verbatim>\<open>Object.assign(target, source)\<close>: every entry of the source is assigned, in order.\<close>

definition Object_assign :: "'v dict \<Rightarrow> 'v dict \<Rightarrow> 'v dict" where
  "Object_assign target source = fold (\<lambda>(k, v) d. dict_set d k v) source target"

definition index_entries :: "json list \<Rightarrow> (string \<times> json) list" where
  "index_entries xs = zip (map nat_to_string [0..<length xs]) xs"

text \<open>
  \<^verbatim>\<open>Object.entries\<close> of a value that is not \<^verbatim>\<open>null\<close>: the entries of a mapping, the
  elements of an array under their indices, the characters of a string under theirs,
  nothing for a number or a boolean. (The program never applies it to \<^verbatim>\<open>null\<close>.)
\<close>

fun Object_entries :: "json \<Rightarrow> (string \<times> json) list" where
  "Object_entries (JObj kvs) = kvs"
| "Object_entries (JArr xs) = index_entries xs"
| "Object_entries (JStr s) = index_entries (map (\<lambda>c. JStr [c]) s)"
| "Object_entries _ = []"

section \<open>\<^verbatim>\<open>JSON.stringify\<close>\<close>

text \<open>
  \<open>SerializeJSON gap indent v\<close> follows the serialisation algorithm of the language
  standard: \<open>gap\<close> is empty for \<^verbatim>\<open>JSON.stringify(v)\<close> and one space for
  \<^verbatim>\<open>JSON.stringify(v, null, 1)\<close>.
\<close>

definition escape_char :: "char \<Rightarrow> string" where
  "escape_char c =
     (if c = CHR 0x22 then [CHR 0x5C, CHR 0x22]
      else if c = CHR 0x5C then [CHR 0x5C, CHR 0x5C]
      else if c = CHR 0x08 then [CHR 0x5C, CHR ''b'']
      else if c = CHR 0x09 then [CHR 0x5C, CHR ''t'']
      else if c = CHR 0x0A then [CHR 0x5C, CHR ''n'']
      else if c = CHR 0x0C then [CHR 0x5C, CHR ''f'']
      else if c = CHR 0x0D then [CHR 0x5C, CHR ''r'']
      else if (of_char c :: nat) < 32
        then [CHR 0x5C, CHR ''u'', CHR ''0'', CHR ''0'',
              digit_char ((of_char c :: nat) div 16), digit_char ((of_char c :: nat) mod 16)]
      else [c])"

definition QuoteJSONString :: "string \<Rightarrow> string" where
  "QuoteJSONString s = CHR 0x22 # concat (map escape_char s) @ [CHR 0x22]"

fun SerializeJSON :: "string \<Rightarrow> string \<Rightarrow> json \<Rightarrow> string" where
  "SerializeJSON gap indent JNull = ''null''"
| "SerializeJSON gap indent (JBool b) = (if b then ''true'' else ''false'')"
| "SerializeJSON gap indent (JNum n) = int_to_string n"
| "SerializeJSON gap indent (JStr s) = QuoteJSONString s"
| "SerializeJSON gap indent (JArr xs) =
     (let stepback = indent;
          indent = indent @ gap;
          partial = map (SerializeJSON gap indent) xs
      in if partial = [] then ''[]''
         else if gap = [] then ''['' @ join '','' partial @ '']''
         else ''['' @ [CHR 0x0A] @ indent @ join ('','' @ [CHR 0x0A] @ indent) partial
              @ [CHR 0x0A] @ stepback @ '']'')"
| "SerializeJSON gap indent (JObj kvs) =
     (let stepback = indent;
          indent = indent @ gap;
          partial = map (\<lambda>(k, v). QuoteJSONString k @ '':'' @ (if gap = [] then [] else '' '')
                                    @ SerializeJSON gap indent v) kvs
      in if partial = [] then ''{}''
         else if gap = [] then ''{'' @ join '','' partial @ ''}''
         else ''{'' @ [CHR 0x0A] @ indent @ join ('','' @ [CHR 0x0A] @ indent) partial
              @ [CHR 0x0A] @ stepback @ ''}'')"

text \<open>\<^verbatim>\<open>JSON.stringify(v)\<close>; of \<^verbatim>\<open>undefined\<close> it is \<^verbatim>\<open>undefined\<close>.\<close>

fun JSON_stringify :: "json option \<Rightarrow> string option" where
  "JSON_stringify None = None"
| "JSON_stringify (Some v) = Some (SerializeJSON [] [] v)"

text \<open>\<^verbatim>\<open>JSON.stringify(v, null, 1)\<close>, the text written back to a file.\<close>

definition JSON_stringify_indent1 :: "json \<Rightarrow> string" where
  "JSON_stringify_indent1 v = SerializeJSON '' '' [] v"

section \<open>The program\<close>

text \<open>
  The interfaces of the source. \<open>exportName\<close> is whatever \<^verbatim>\<open>output.Export.Name\<close> holds
  (possibly \<^verbatim>\<open>undefined\<close>), and the exported values are whatever \<^verbatim>\<open>output.Value\<close>
  holds.
\<close>

record ExportsOutputFnData =
  exportName :: "json option"
  fn_value :: "json option"

record NamedExportData =
  key :: string
  named_value :: "json option"

record ImportData =
  path :: string
  import_value :: string

record AnalysisResult =
  exportsOutputFn :: "ExportsOutputFnData dict"
  namedExports :: "NamedExportData dict"
  imports_found :: "ImportData list"
  content :: json
  filePath :: string

text \<open>
  What a run can throw: \<^verbatim>\<open>readFileSync\<close> on a missing file, \<^verbatim>\<open>JSON.parse\<close> on text that
  is not JSON, and a property read on \<^verbatim>\<open>null\<close>.
\<close>

datatype error = IOError | ParseError | TypeError

subsection \<open>\<^verbatim>\<open>analyzeTemplate\<close>\<close>

text \<open>
  The loop over \<^verbatim>\<open>Object.entries(outputs)\<close>. Reading \<^verbatim>\<open>output.Export\<close> throws when the
  output is \<^verbatim>\<open>null\<close>; both branches of the source read it.
\<close>

fun collect_exports ::
  "(string \<times> json) list \<Rightarrow> (ExportsOutputFnData dict \<times> NamedExportData dict)
     \<Rightarrow> error + (ExportsOutputFnData dict \<times> NamedExportData dict)" where
  "collect_exports [] acc = Inr acc"
| "collect_exports ((k, output) # rest) (fnExports, named) =
     (if output = JNull then Inl TypeError
      else if startsWith k ''ExportsOutputFn'' \<and> truthy (get_prop output ''Export'') then
        collect_exports rest
          (dict_set fnExports k
             \<lparr>exportName = get_member (get_prop output ''Export'') ''Name'',
              fn_value = get_prop output ''Value''\<rparr>,
           named)
      else if truthy (get_prop output ''Export'') \<and> \<not> startsWith k ''ExportsOutputFn'' then
        collect_exports rest
          (fnExports,
           dict_set named
             (ToPropertyKey (get_member (get_prop output ''Export'') ''Name''))
             \<lparr>key = k, named_value = get_prop output ''Value''\<rparr>)
      else collect_exports rest (fnExports, named))"

text \<open>
  The nested \<^verbatim>\<open>findImports(obj, path)\<close>; the result is what it pushes to \<^verbatim>\<open>imports\<close>, in
  the order of the pushes. An array has no \<^verbatim>\<open>Fn::ImportValue\<close> property.
\<close>

definition child_path :: "string \<Rightarrow> string \<Rightarrow> string" where
  "child_path p k = (if p \<noteq> [] then p @ ''.'' @ k else k)"

definition import_here :: "json \<Rightarrow> string \<Rightarrow> ImportData list" where
  "import_here obj p =
     (if truthy (get_prop obj ''Fn::ImportValue'') then
        (case get_prop obj ''Fn::ImportValue'' of
           Some (JStr importValue) \<Rightarrow>
             if str_includes importValue ''ExportsOutputFn''
             then [\<lparr>path = p, import_value = importValue\<rparr>] else []
         | _ \<Rightarrow> [])
      else [])"

function (sequential) findImports :: "json \<Rightarrow> string \<Rightarrow> ImportData list" where
  "findImports (JObj kvs) p =
     import_here (JObj kvs) p
     @ concat (map (\<lambda>(k, v). findImports v (child_path p k)) kvs)"
| "findImports (JArr xs) p =
     concat (map (\<lambda>(k, v). findImports v (child_path p k)) (index_entries xs))"
| "findImports v p = []"
  by pat_completeness auto
termination
proof (relation "measure (\<lambda>(obj, p). size obj)")
  fix xs :: "json list" and p :: string and x :: "string \<times> json" and k :: string and v :: json
  assume "x \<in> set (index_entries xs)" and "(k, v) = x"
  then have "v \<in> set xs"
    by (auto simp: index_entries_def dest: set_zip_rightD)
  then have "size v \<le> size_list size xs"
    by (rule size_list_estimation') simp
  then show "((v, child_path p k), (JArr xs, p)) \<in> measure (\<lambda>(obj, p). size obj)"
    by simp
next
  fix kvs :: "(string \<times> json) list" and p :: string and x :: "string \<times> json"
    and k :: string and v :: json
  assume "x \<in> set kvs" and "(k, v) = x"
  then have "(k, v) \<in> set kvs" by simp
  then have "size_prod (\<lambda>_. 0) size (k, v) \<le> size_list (size_prod (\<lambda>_. 0) size) kvs"
    by (rule size_list_estimation') simp
  then show "((v, child_path p k), (JObj kvs, p)) \<in> measure (\<lambda>(obj, p). size obj)"
    by simp
qed simp

text \<open>\<^verbatim>\<open>content.Outputs || {}\<close>, for a content that is not \<^verbatim>\<open>null\<close>.\<close>

definition outputs_of :: "json \<Rightarrow> json" where
  "outputs_of tree =
     (if truthy (get_prop tree ''Outputs'')
      then (case get_prop tree ''Outputs'' of Some v \<Rightarrow> v | None \<Rightarrow> JObj [])
      else JObj [])"

text \<open>
  \<open>JSON_parse\<close> stands for \<^verbatim>\<open>JSON.parse\<close> (\<open>None\<close> when it throws a syntax error) and
  \<open>fs\<close> for the files on disk.
\<close>

definition analyzeTemplate ::
  "(string \<Rightarrow> json option) \<Rightarrow> (string \<rightharpoonup> string) \<Rightarrow> string \<Rightarrow> error + AnalysisResult" where
  "analyzeTemplate JSON_parse fs file =
     (case fs file of
        None \<Rightarrow> Inl IOError
      | Some bytes \<Rightarrow>
          (case JSON_parse bytes of
             None \<Rightarrow> Inl ParseError
           | Some tree \<Rightarrow>
               if tree = JNull then Inl TypeError
               else
                 (case collect_exports (Object_entries (outputs_of tree)) ([], []) of
                    Inl e \<Rightarrow> Inl e
                  | Inr (fnExports, named) \<Rightarrow>
                      Inr \<lparr>exportsOutputFn = fnExports,
                           namedExports = named,
                           imports_found = findImports tree [],
                           content = tree,
                           filePath = file\<rparr>)))"

subsection \<open>\<^verbatim>\<open>findMatchingNamedExport\<close>\<close>

fun findMatchingNamedExport ::
  "string \<Rightarrow> json option \<Rightarrow> NamedExportData dict \<Rightarrow> string option" where
  "findMatchingNamedExport exportsOutputFnKey exportsOutputFnValue [] = None"
| "findMatchingNamedExport exportsOutputFnKey exportsOutputFnValue ((name, namedExport) # rest) =
     (if JSON_stringify (named_value namedExport) = JSON_stringify exportsOutputFnValue
      then Some name
      else findMatchingNamedExport exportsOutputFnKey exportsOutputFnValue rest)"

subsection \<open>\<^verbatim>\<open>replaceImportsInObject\<close>\<close>

text \<open>
  \<^verbatim>\<open>replacements[importValue]\<close> is truthy when the key is present with a non-empty string.
\<close>

definition replacement_for :: "string dict \<Rightarrow> json \<Rightarrow> string option" where
  "replacement_for replacements obj =
     (if truthy (get_prop obj ''Fn::ImportValue'') then
        (case get_prop obj ''Fn::ImportValue'' of
           Some (JStr importValue) \<Rightarrow>
             (case map_of replacements importValue of
                Some new \<Rightarrow> if new \<noteq> [] then Some new else None
              | None \<Rightarrow> None)
         | _ \<Rightarrow> None)
      else None)"

text \<open>
  The source mutates the tree in place and returns whether it changed; the model returns
  the flag and the tree after the call (the trees \<^verbatim>\<open>JSON.parse\<close> returns share no nodes, so
  nothing else sees the mutation). A mapping whose marker is replaced returns at once,
  without visiting its other entries; assigning to the existing key keeps its place.
\<close>

fun replaceImportsInObject :: "json \<Rightarrow> string dict \<Rightarrow> bool \<times> json" where
  "replaceImportsInObject (JObj kvs) replacements =
     (case replacement_for replacements (JObj kvs) of
        Some new \<Rightarrow> (True, JObj (AList.update ''Fn::ImportValue'' (JStr new) kvs))
      | None \<Rightarrow>
          (let rs = map (\<lambda>(k, v). (k, replaceImportsInObject v replacements)) kvs
           in (list_ex (\<lambda>(k, r). fst r) rs, JObj (map (\<lambda>(k, r). (k, snd r)) rs))))"
| "replaceImportsInObject (JArr xs) replacements =
     (let rs = map (\<lambda>v. replaceImportsInObject v replacements) xs
      in (list_ex fst rs, JArr (map snd rs)))"
| "replaceImportsInObject v replacements = (False, v)"

subsection \<open>\<^verbatim>\<open>main\<close>\<close>

text \<open>
  The world of a run: whether \<^verbatim>\<open>./cdk.out\<close> exists, the paths \<^verbatim>\<open>findTemplateFiles\<close>
  returns (directory discovery itself is not modelled), and the files' texts. Writing a file
  is taken to succeed. Console output is not modelled; the two counters of the source are.
  A run ends by \<^verbatim>\<open>process.exit(1)\<close>, by an uncaught exception, by the early return when
  nothing matched, or after the loop that applies the replacements, with the count it
  reports.
\<close>

record world =
  cdk_out_exists :: bool
  templateFiles :: "string list"
  files :: "string \<rightharpoonup> string"

datatype outcome =
    Exit1
  | Threw error
  | NoOptimizations
  | Completed nat

text \<open>\<^verbatim>\<open>templateFiles.map(analyzeTemplate)\<close>: the first exception ends it.\<close>

fun analyzeAll ::
  "(string \<Rightarrow> json option) \<Rightarrow> (string \<rightharpoonup> string) \<Rightarrow> string list \<Rightarrow> error + AnalysisResult list" where
  "analyzeAll JSON_parse fs [] = Inr []"
| "analyzeAll JSON_parse fs (file # rest) =
     (case analyzeTemplate JSON_parse fs file of
        Inl e \<Rightarrow> Inl e
      | Inr a \<Rightarrow> (case analyzeAll JSON_parse fs rest of
                    Inl e \<Rightarrow> Inl e
                  | Inr as \<Rightarrow> Inr (a # as)))"

definition collectNamedExports :: "AnalysisResult list \<Rightarrow> NamedExportData dict" where
  "collectNamedExports analyses =
     fold (\<lambda>analysis allNamedExports. Object_assign allNamedExports (namedExports analysis))
       analyses []"

text \<open>One turn of the inner matching loop: the state is \<open>(replacements, matchCount)\<close>.\<close>

definition match_step ::
  "NamedExportData dict \<Rightarrow> (string \<times> ExportsOutputFnData) \<Rightarrow> (string dict \<times> nat)
     \<Rightarrow> (string dict \<times> nat)" where
  "match_step allNamedExports entry st =
     (case findMatchingNamedExport (fst entry) (fn_value (snd entry)) allNamedExports of
        Some matchingNamed \<Rightarrow>
          if matchingNamed \<noteq> []
          then (dict_set (fst st) (ToPropertyKey (exportName (snd entry))) matchingNamed,
                Suc (snd st))
          else st
      | None \<Rightarrow> st)"

definition findReplacements ::
  "AnalysisResult list \<Rightarrow> NamedExportData dict \<Rightarrow> (string dict \<times> nat)" where
  "findReplacements analyses allNamedExports =
     fold (\<lambda>analysis. fold (match_step allNamedExports) (exportsOutputFn analysis))
       analyses ([], 0)"

text \<open>
  One turn of the loop that applies the replacements: the state is
  \<open>(totalReplacements, files)\<close>.
\<close>

definition has_replacement :: "string dict \<Rightarrow> string \<Rightarrow> bool" where
  "has_replacement replacements name =
     (case map_of replacements name of Some new \<Rightarrow> new \<noteq> [] | None \<Rightarrow> False)"

definition apply_step ::
  "string dict \<Rightarrow> AnalysisResult \<Rightarrow> (nat \<times> (string \<rightharpoonup> string))
     \<Rightarrow> (nat \<times> (string \<rightharpoonup> string))" where
  "apply_step replacements analysis st =
     (let hits = filter (\<lambda>importData. has_replacement replacements (import_value importData))
                   (imports_found analysis);
          fileChanged = (hits \<noteq> []);
          totalReplacements = fst st + length hits
      in if fileChanged then
           (let (changed, tree') = replaceImportsInObject (content analysis) replacements
            in if changed
               then (totalReplacements,
                     (snd st)(filePath analysis \<mapsto> JSON_stringify_indent1 tree'))
               else (totalReplacements, snd st))
         else (totalReplacements, snd st))"

definition main :: "(string \<Rightarrow> json option) \<Rightarrow> world \<Rightarrow> outcome \<times> world" where
  "main JSON_parse w =
     (if \<not> cdk_out_exists w then (Exit1, w)
      else
        (case analyzeAll JSON_parse (files w) (templateFiles w) of
           Inl e \<Rightarrow> (Threw e, w)
         | Inr analyses \<Rightarrow>
             (let allNamedExports = collectNamedExports analyses;
                  (replacements, matchCount) = findReplacements analyses allNamedExports
              in if matchCount = 0 then (NoOptimizations, w)
                 else
                   (let (totalReplacements, fs') =
                          fold (apply_step replacements) analyses (0, files w)
                    in (Completed totalReplacements, w\<lparr>files := fs'\<rparr>)))))"

section \<open>Notions of the specification\<close>




text \<open>
  The nodes of a tree in depth-first order, each with the path the scanner has accumulated
  when it reaches it.
\<close>

function (sequential) nodes :: "json \<Rightarrow> string \<Rightarrow> (string \<times> json) list" where
  "nodes (JObj kvs) p = (p, JObj kvs) # concat (map (\<lambda>(k, v). nodes v (child_path p k)) kvs)"
| "nodes (JArr xs) p =
     (p, JArr xs) # concat (map (\<lambda>(k, v). nodes v (child_path p k)) (index_entries xs))"
| "nodes v p = [(p, v)]"
  by pat_completeness auto
termination
proof (relation "measure (\<lambda>(obj, p). size obj)")
  fix xs :: "json list" and p :: string and x :: "string \<times> json" and k :: string and v :: json
  assume "x \<in> set (index_entries xs)" and "(k, v) = x"
  then have "v \<in> set xs"
    by (auto simp: index_entries_def dest: set_zip_rightD)
  then have "size v \<le> size_list size xs"
    by (rule size_list_estimation') simp
  then show "((v, child_path p k), (JArr xs, p)) \<in> measure (\<lambda>(obj, p). size obj)"
    by simp
next
  fix kvs :: "(string \<times> json) list" and p :: string and x :: "string \<times> json"
    and k :: string and v :: json
  assume "x \<in> set kvs" and "(k, v) = x"
  then have "(k, v) \<in> set kvs" by simp
  then have "size_prod (\<lambda>_. 0) size (k, v) \<le> size_list (size_prod (\<lambda>_. 0) size) kvs"
    by (rule size_list_estimation') simp
  then show "((v, child_path p k), (JObj kvs, p)) \<in> measure (\<lambda>(obj, p). size obj)"
    by simp
qed simp

text \<open>
  The target of a node that carries the import marker with a string value, and the nodes at
  which the scanner of the source records an occurrence: the target contains the synthetic
  marker somewhere.
\<close>

definition import_target :: "json \<Rightarrow> string option" where
  "import_target n =
     (case n of
        JObj kvs \<Rightarrow> (case map_of kvs ''Fn::ImportValue'' of Some (JStr s) \<Rightarrow> Some s | _ \<Rightarrow> None)
      | _ \<Rightarrow> None)"

definition scanned :: "json \<Rightarrow> bool" where
  "scanned n =
     (case import_target n of Some s \<Rightarrow> str_includes s ''ExportsOutputFn'' | None \<Rightarrow> False)"

definition occurrence :: "string \<times> json \<Rightarrow> ImportData" where
  "occurrence pn = \<lparr>path = fst pn, import_value = (case import_target (snd pn) of Some s \<Rightarrow> s | None \<Rightarrow> [])\<rparr>"

text \<open>
  A synthetic reference in the spec's words: a single-key mapping whose key is the import
  marker and whose value is a string that starts with the synthetic-name prefix.
\<close>

definition is_synthetic_reference :: "json \<Rightarrow> bool" where
  "is_synthetic_reference n =
     (case n of
        JObj [(k, JStr s)] \<Rightarrow> k = ''Fn::ImportValue'' \<and> startsWith s ''ExportsOutputFn''
      | _ \<Rightarrow> False)"









subsection \<open>Auxiliary notions for the proofs about serialisation\<close>



section \<open>Example documents\<close>

text \<open>
  Templates in the shape the tool is written for, used by the witnesses and the
  counterexamples below. \<open>doc_x\<close> declares a generated export and imports it; \<open>doc_y\<close>
  declares a named export of the same value; \<open>doc_z\<close> declares the named export of
  \<open>doc_y\<close> again with another value; \<open>doc_p\<close> is \<open>doc_x\<close> with an export name that does not
  contain the marker \<^verbatim>\<open>ExportsOutputFn\<close>.
\<close>

definition doc_x :: json where
  "doc_x =
     JObj [(''Outputs'',
            JObj [(''ExportsOutputFnA'',
                   JObj [(''Value'',
                          JObj [(''Fn::GetAtt'', JArr [JStr ''BucketA'', JStr ''Arn''])]),
                         (''Export'', JObj [(''Name'', JStr ''S:ExportsOutputFnA'')])])]),
           (''Resources'',
            JObj [(''R'',
                   JArr [JArr [JObj [(''Fn::ImportValue'', JStr ''S:ExportsOutputFnA'')]]])])]"

definition doc_y :: json where
  "doc_y =
     JObj [(''Outputs'',
            JObj [(''BucketArnExport'',
                   JObj [(''Value'',
                          JObj [(''Fn::GetAtt'', JArr [JStr ''BucketA'', JStr ''Arn''])]),
                         (''Export'', JObj [(''Name'', JStr ''SharedBucketArn'')])])])]"

definition doc_z :: json where
  "doc_z =
     JObj [(''Outputs'',
            JObj [(''OtherBucket'',
                   JObj [(''Value'', JObj [(''Ref'', JStr ''BucketB'')]),
                         (''Export'', JObj [(''Name'', JStr ''SharedBucketArn'')])])])]"

definition doc_p :: json where
  "doc_p =
     JObj [(''Outputs'',
            JObj [(''ExportsOutputFnA'',
                   JObj [(''Value'',
                          JObj [(''Fn::GetAtt'', JArr [JStr ''BucketA'', JStr ''Arn''])]),
                         (''Export'', JObj [(''Name'', JStr ''Export7f3a'')])])]),
           (''Resources'',
            JObj [(''R'', JArr [JArr [JObj [(''Fn::ImportValue'', JStr ''Export7f3a'')]]])])]"

text \<open>
  A chain of stacks: \<open>doc_a\<close> exports a value under a generated and under a chosen name;
  \<open>doc_b\<close> imports it and exports the import again, under a generated name (importing the
  generated name) and under a chosen name (importing the chosen name); \<open>doc_c\<close> imports the
  generated export of \<open>doc_b\<close>.
\<close>

definition doc_a :: json where
  "doc_a =
     JObj [(''Outputs'',
            JObj [(''ExportsOutputFnQ'',
                   JObj [(''Value'', JObj [(''Ref'', JStr ''Q'')]),
                         (''Export'', JObj [(''Name'', JStr ''A:ExportsOutputFnQ'')])]),
                  (''NamedQ'',
                   JObj [(''Value'', JObj [(''Ref'', JStr ''Q'')]),
                         (''Export'', JObj [(''Name'', JStr ''SharedQ'')])])])]"

definition doc_b :: json where
  "doc_b =
     JObj [(''Outputs'',
            JObj [(''ExportsOutputFnS'',
                   JObj [(''Value'',
                          JObj [(''Fn::ImportValue'', JStr ''A:ExportsOutputFnQ'')]),
                         (''Export'', JObj [(''Name'', JStr ''B:ExportsOutputFnS'')])]),
                  (''NamedS'',
                   JObj [(''Value'', JObj [(''Fn::ImportValue'', JStr ''SharedQ'')]),
                         (''Export'', JObj [(''Name'', JStr ''SharedS'')])])])]"

definition doc_c :: json where
  "doc_c =
     JObj [(''Resources'',
            JObj [(''R'', JObj [(''Fn::ImportValue'', JStr ''B:ExportsOutputFnS'')])])]"

text \<open>The documents \<open>doc_x\<close> and \<open>doc_b\<close> as the first run rewrites them.\<close>

definition doc_x_rewritten :: json where
  "doc_x_rewritten =
     JObj [(''Outputs'',
            JObj [(''ExportsOutputFnA'',
                   JObj [(''Value'',
                          JObj [(''Fn::GetAtt'', JArr [JStr ''BucketA'', JStr ''Arn''])]),
                         (''Export'', JObj [(''Name'', JStr ''S:ExportsOutputFnA'')])])]),
           (''Resources'',
            JObj [(''R'',
                   JArr [JArr [JObj [(''Fn::ImportValue'', JStr ''SharedBucketArn'')]]])])]"

definition doc_b_rewritten :: json where
  "doc_b_rewritten =
     JObj [(''Outputs'',
            JObj [(''ExportsOutputFnS'',
                   JObj [(''Value'', JObj [(''Fn::ImportValue'', JStr ''SharedQ'')]),
                         (''Export'', JObj [(''Name'', JStr ''B:ExportsOutputFnS'')])]),
                  (''NamedS'',
                   JObj [(''Value'', JObj [(''Fn::ImportValue'', JStr ''SharedQ'')]),
                         (''Export'', JObj [(''Name'', JStr ''SharedS'')])])])]"

text \<open>
  The texts of the files: the compact serialisation of each document and, for the rewritten
  documents, the text that the tool writes (indentation 1). \<open>parse_table\<close> is
  \<^verbatim>\<open>JSON.parse\<close> on these texts; every other text used below is not JSON.
\<close>

definition text_x :: string where
  \<open>text_x =
     ''{"Outputs":{"ExportsOutputFnA":{"Value":{"Fn::GetAtt":["BucketA","Arn"]},"Expor'' @
     ''t":{"Name":"S:ExportsOutputFnA"}}},"Resources":{"R":[[{"Fn::ImportValue":"S:Exp'' @
     ''ortsOutputFnA"}]]}}''\<close>

definition text_y :: string where
  \<open>text_y =
     ''{"Outputs":{"BucketArnExport":{"Value":{"Fn::GetAtt":["BucketA","Arn"]},"Export'' @
     ''":{"Name":"SharedBucketArn"}}}}''\<close>

definition text_z :: string where
  \<open>text_z =
     ''{"Outputs":{"OtherBucket":{"Value":{"Ref":"BucketB"},"Export":{"Name":"SharedBu'' @
     ''cketArn"}}}}''\<close>

definition text_p :: string where
  \<open>text_p =
     ''{"Outputs":{"ExportsOutputFnA":{"Value":{"Fn::GetAtt":["BucketA","Arn"]},"Expor'' @
     ''t":{"Name":"Export7f3a"}}},"Resources":{"R":[[{"Fn::ImportValue":"Export7f3a"}]'' @
     '']}}''\<close>

definition text_a :: string where
  \<open>text_a =
     ''{"Outputs":{"ExportsOutputFnQ":{"Value":{"Ref":"Q"},"Export":{"Name":"A:Exports'' @
     ''OutputFnQ"}},"NamedQ":{"Value":{"Ref":"Q"},"Export":{"Name":"SharedQ"}}}}''\<close>

definition text_b :: string where
  \<open>text_b =
     ''{"Outputs":{"ExportsOutputFnS":{"Value":{"Fn::ImportValue":"A:ExportsOutputFnQ"'' @
     ''},"Export":{"Name":"B:ExportsOutputFnS"}},"NamedS":{"Value":{"Fn::ImportValue":'' @
     ''"SharedQ"},"Export":{"Name":"SharedS"}}}}''\<close>

definition text_c :: string where
  \<open>text_c =
     ''{"Resources":{"R":{"Fn::ImportValue":"B:ExportsOutputFnS"}}}''\<close>

definition text_x_rewritten :: string where
  \<open>text_x_rewritten =
     ''{\<newline> "Outputs": {\<newline>  "ExportsOutputFnA": {\<newline>   "Value": '' @
     ''{\<newline>    "Fn::GetAtt": [\<newline>     "BucketA",\<newline>     "Arn"'' @
     ''\<newline>    ]\<newline>   },\<newline>   "Export": {\<newline>    "Name": "S:'' @
     ''ExportsOutputFnA"\<newline>   }\<newline>  }\<newline> },\<newline> "Resources"'' @
     '': {\<newline>  "R": [\<newline>   [\<newline>    {\<newline>     "Fn::ImportVal'' @
     ''ue": "SharedBucketArn"\<newline>    }\<newline>   ]\<newline>  ]\<newline> }'' @
     ''\<newline>}''\<close>

definition text_b_rewritten :: string where
  \<open>text_b_rewritten =
     ''{\<newline> "Outputs": {\<newline>  "ExportsOutputFnS": {\<newline>   "Value": '' @
     ''{\<newline>    "Fn::ImportValue": "SharedQ"\<newline>   },\<newline>   "Export"'' @
     '': {\<newline>    "Name": "B:ExportsOutputFnS"\<newline>   }\<newline>  },'' @
     ''\<newline>  "NamedS": {\<newline>   "Value": {\<newline>    "Fn::ImportValue": '' @
     ''"SharedQ"\<newline>   },\<newline>   "Export": {\<newline>    "Name": "SharedS"'' @
     ''\<newline>   }\<newline>  }\<newline> }\<newline>}''\<close>

definition parse_table :: "string \<Rightarrow> json option" where
  "parse_table =
     map_of [(text_x, doc_x), (text_y, doc_y), (text_z, doc_z), (text_p, doc_p),
             (text_a, doc_a), (text_b, doc_b), (text_c, doc_c),
             (text_x_rewritten, doc_x_rewritten), (text_b_rewritten, doc_b_rewritten)]"

text \<open>The worlds of the examples, and the analyses that loading them gives.\<close>

definition world_xy :: world where
  "world_xy =
     \<lparr>cdk_out_exists = True,
      templateFiles = [''x.template.json'', ''y.template.json''],
      files = [''x.template.json'' \<mapsto> text_x, ''y.template.json'' \<mapsto> text_y]\<rparr>"



definition world_abc :: world where
  "world_abc =
     \<lparr>cdk_out_exists = True,
      templateFiles = [''a.template.json'', ''b.template.json'', ''c.template.json''],
      files = [''a.template.json'' \<mapsto> text_a, ''b.template.json'' \<mapsto> text_b, ''c.template.json'' \<mapsto> text_c]\<rparr>"

text \<open>The directory of \<open>world_xy\<close> with a second file that is not JSON.\<close>

definition world_broken :: world where
  \<open>world_broken =
     \<lparr>cdk_out_exists = True,
      templateFiles = [''x.template.json'', ''y.template.json''],
      files = [''x.template.json'' \<mapsto> text_x, ''y.template.json'' \<mapsto> ''{"Outputs":'']\<rparr>\<close>

definition analyses_of :: "world \<Rightarrow> AnalysisResult list" where
  "analyses_of w = projr (analyzeAll parse_table (files w) (templateFiles w))"

definition replacements_of :: "world \<Rightarrow> string dict" where
  "replacements_of w =
     fst (findReplacements (analyses_of w) (collectNamedExports (analyses_of w)))"



section \<open>Properties\<close>

subsection \<open>The example texts\<close>

text \<open>
  Each example text is the serialisation of its document, and the rewritten documents are
  what the rewriter makes of \<open>doc_x\<close> and \<open>doc_b\<close> with the replacement maps of their worlds.
\<close>

lemma text_x_serialises: "text_x = SerializeJSON [] [] doc_x"
  by code_simp

lemma text_y_serialises: "text_y = SerializeJSON [] [] doc_y"
  by code_simp

lemma text_z_serialises: "text_z = SerializeJSON [] [] doc_z"
  by code_simp

lemma text_p_serialises: "text_p = SerializeJSON [] [] doc_p"
  by code_simp

lemma text_a_serialises: "text_a = SerializeJSON [] [] doc_a"
  by code_simp

lemma text_b_serialises: "text_b = SerializeJSON [] [] doc_b"
  by code_simp

lemma text_c_serialises: "text_c = SerializeJSON [] [] doc_c"
  by code_simp

lemma text_x_rewritten_serialises: "text_x_rewritten = JSON_stringify_indent1 doc_x_rewritten"
  by code_simp

lemma text_b_rewritten_serialises: "text_b_rewritten = JSON_stringify_indent1 doc_b_rewritten"
  by code_simp

lemma doc_x_rewritten_by_run:
  "doc_x_rewritten = snd (replaceImportsInObject doc_x (replacements_of world_xy))"
  by code_simp

lemma doc_b_rewritten_by_run:
  "doc_b_rewritten = snd (replaceImportsInObject doc_b (replacements_of world_abc))"
  by code_simp

subsection \<open>Dictionaries\<close>












subsection \<open>Loading\<close>

lemma analyzeAll_append:
  "analyzeAll P fs (pre @ rest) =
     (case analyzeAll P fs pre of
        Inl e \<Rightarrow> Inl e
      | Inr as \<Rightarrow> (case analyzeAll P fs rest of Inl e \<Rightarrow> Inl e | Inr bs \<Rightarrow> Inr (as @ bs)))"
  by (induction pre) (auto split: sum.splits)

lemma analyzeTemplate_parse_error:
  "fs tf = Some bytes \<Longrightarrow> P bytes = None \<Longrightarrow> analyzeTemplate P fs tf = Inl ParseError"
  by (simp add: analyzeTemplate_def)

lemma analyzeTemplate_Inr:
  assumes "analyzeTemplate P fs tf = Inr a"
  shows "\<exists>bytes. fs tf = Some bytes \<and> P bytes = Some (content a) \<and> content a \<noteq> JNull
           \<and> collect_exports (Object_entries (outputs_of (content a))) ([], [])
                = Inr (exportsOutputFn a, namedExports a)
           \<and> imports_found a = findImports (content a) [] \<and> filePath a = tf"
  using assms
  by (auto simp: analyzeTemplate_def split: option.splits if_splits sum.splits)


text \<open>
  C8. Every template is parsed before anything is matched or written. If a template file
  is not valid JSON, the run ends with an exception and the world is as it was: no file
  is modified. The exception is the parse error, unless the analysis of an earlier file
  already threw.
\<close>

theorem parse_error_aborts_run:
  assumes "cdk_out_exists w"
    and "templateFiles w = pre @ tf # post"
    and "files w tf = Some bytes"
    and "JSON_parse bytes = None"
  shows "main JSON_parse w =
           (Threw (case analyzeAll JSON_parse (files w) pre of Inl e \<Rightarrow> e | Inr as \<Rightarrow> ParseError), w)"
proof -
  have bad: "analyzeTemplate JSON_parse (files w) tf = Inl ParseError"
    using assms(3,4) by (rule analyzeTemplate_parse_error)
  have "analyzeAll JSON_parse (files w) (templateFiles w) =
          Inl (case analyzeAll JSON_parse (files w) pre of Inl e \<Rightarrow> e | Inr as \<Rightarrow> ParseError)"
    unfolding assms(2) analyzeAll_append
    by (simp add: bad split: sum.splits)
  then show ?thesis
    using assms(1) by (simp add: main_def)
qed

theorem parse_error_aborts_run_witness:
  "cdk_out_exists world_broken
   \<and> templateFiles world_broken = [''x.template.json''] @ ''y.template.json'' # []
   \<and> files world_broken ''y.template.json'' = Some ''{\"Outputs\":''
   \<and> parse_table ''{\"Outputs\":'' = None
   \<and> main parse_table world_broken = (Threw ParseError, world_broken)"
proof -
  have h1: "cdk_out_exists world_broken"
    by (simp add: world_broken_def)
  have h2: "templateFiles world_broken = [''x.template.json''] @ ''y.template.json'' # []"
    by (simp add: world_broken_def)
  have h3: "files world_broken ''y.template.json'' = Some ''{\"Outputs\":''"
    by (simp add: world_broken_def)
  have h4: "parse_table ''{\"Outputs\":'' = None"
    by code_simp
  have ok: "(case analyzeAll parse_table (files world_broken) [''x.template.json''] of
               Inl e \<Rightarrow> e | Inr as \<Rightarrow> ParseError) = ParseError"
    by code_simp
  show ?thesis
    using h1 h2 h3 h4
      parse_error_aborts_run [where w = world_broken and pre = "[''x.template.json'']"
        and tf = "''y.template.json''" and post = "[]" and bytes = "''{\"Outputs\":''"
        and JSON_parse = parse_table, OF h1 h2 h3 h4]
    unfolding ok by simp
qed

subsection \<open>The catalog of named exports\<close>


lemma map_add_upd_left_shift: "m ++ ([k \<mapsto> v] ++ m') = m(k \<mapsto> v) ++ m'"
  by (auto simp: fun_eq_iff map_add_def split: option.splits)








subsection \<open>\<^verbatim>\<open>JSON.stringify\<close> is injective\<close>



























subsection \<open>Matching\<close>













subsection \<open>The rewriter\<close>








subsection \<open>The scanner\<close>

lemma str_includes_nonempty: "str_includes s (c # cs) \<Longrightarrow> s \<noteq> []"
  by (cases s) auto

lemma import_here_scanned:
  "import_here n p = (if scanned n then [occurrence (p, n)] else [])"
proof (cases n)
  case (JObj kvs)
  show ?thesis
  proof (cases "map_of kvs ''Fn::ImportValue''")
    case None
    with JObj show ?thesis
      by (simp add: import_here_def scanned_def import_target_def)
  next
    case (Some v)
    with JObj show ?thesis
      by (cases v)
         (auto simp: import_here_def scanned_def import_target_def occurrence_def
            dest: str_includes_nonempty)
  qed
qed (simp_all add: import_here_def scanned_def import_target_def)

lemma map_filter_concat:
  "map f (filter P (concat (map g xs))) = concat (map (\<lambda>x. map f (filter P (g x))) xs)"
  by (induction xs) auto

text \<open>
  C4, as the code has it. The scanner records an occurrence exactly at the nodes that are
  a mapping with the import-marker key (alone or beside other keys) whose value is a string
  that contains the marker \<^verbatim>\<open>ExportsOutputFn\<close> anywhere; each such node is recorded once, in
  depth-first order, with its accumulated path and its target. A reference whose target
  does not contain the marker is never recorded.
\<close>

theorem findImports_characterisation:
  "findImports t p = map occurrence (filter (\<lambda>pn. scanned (snd pn)) (nodes t p))"
proof (induction t p rule: findImports.induct)
  case (1 kvs p)
  have A: "concat (map (\<lambda>(k, v). findImports v (child_path p k)) kvs)
      = concat (map (\<lambda>(k, v). map occurrence (filter (\<lambda>pn. scanned (snd pn))
                                     (nodes v (child_path p k)))) kvs)"
  proof (rule arg_cong [where f = concat], rule map_cong [OF refl])
    fix x assume "x \<in> set kvs"
    then show "(case x of (k, v) \<Rightarrow> findImports v (child_path p k))
        = (case x of (k, v) \<Rightarrow> map occurrence (filter (\<lambda>pn. scanned (snd pn))
                                     (nodes v (child_path p k))))"
      using 1 [of x "fst x" "snd x"] by (simp add: split_beta)
  qed
  show ?case
    unfolding findImports.simps nodes.simps A
    by (simp add: import_here_scanned map_filter_concat split_def)
next
  case (2 xs p)
  have A: "concat (map (\<lambda>(k, v). findImports v (child_path p k)) (index_entries xs))
      = concat (map (\<lambda>(k, v). map occurrence (filter (\<lambda>pn. scanned (snd pn))
                                     (nodes v (child_path p k)))) (index_entries xs))"
  proof (rule arg_cong [where f = concat], rule map_cong [OF refl])
    fix x assume "x \<in> set (index_entries xs)"
    then show "(case x of (k, v) \<Rightarrow> findImports v (child_path p k))
        = (case x of (k, v) \<Rightarrow> map occurrence (filter (\<lambda>pn. scanned (snd pn))
                                     (nodes v (child_path p k))))"
      using 2 [of x "fst x" "snd x"] by (simp add: split_beta)
  qed
  have "\<not> scanned (JArr xs)"
    by (simp add: scanned_def import_target_def)
  then show ?case
    unfolding findImports.simps nodes.simps A
    by (simp add: map_filter_concat split_def)
qed (simp_all add: scanned_def import_target_def)

text \<open>
  The claim as stated fails: the import of \<open>doc_x\<close> targets an export name that contains
  the marker without starting with it, and it is recorded.
\<close>

theorem scanner_records_contained_prefix:
  "\<not> is_synthetic_reference (JObj [(''Fn::ImportValue'', JStr ''S:ExportsOutputFnA'')])
   \<and> findImports (JObj [(''Fn::ImportValue'', JStr ''S:ExportsOutputFnA'')]) []
       = [\<lparr>path = [], import_value = ''S:ExportsOutputFnA''\<rparr>]"
  by (simp add: is_synthetic_reference_def import_here_def)

subsection \<open>Applying the replacements\<close>

lemma apply_step_other_file:
  "filePath a \<noteq> p \<Longrightarrow> snd (apply_step R a st) p = snd st p"
  by (simp add: apply_step_def Let_def split_beta)

lemma apply_step_no_hits:
  "\<forall>imp \<in> set (imports_found a). \<not> has_replacement R (import_value imp) \<Longrightarrow>
     snd (apply_step R a st) = snd st"
  by (simp add: apply_step_def Let_def filter_empty_conv [THEN iffD2])

lemma fold_apply_step_untouched:
  "\<forall>b \<in> set as. filePath b = p \<longrightarrow>
        (\<forall>imp \<in> set (imports_found b). \<not> has_replacement R (import_value imp)) \<Longrightarrow>
     snd (fold (apply_step R) as st) p = snd st p"
proof (induction as arbitrary: st)
  case Nil
  then show ?case by simp
next
  case (Cons a as)
  have "snd (apply_step R a st) p = snd st p"
  proof (cases "filePath a = p")
    case True
    with Cons.prems show ?thesis by (simp add: apply_step_no_hits)
  next
    case False
    then show ?thesis by (rule apply_step_other_file)
  qed
  moreover have "snd (fold (apply_step R) as (apply_step R a st)) p = snd (apply_step R a st) p"
    using Cons.prems by (intro Cons.IH) simp
  ultimately show ?case by simp
qed

lemma analyzeAll_filePaths:
  "analyzeAll P fs tfs = Inr as \<Longrightarrow> map filePath as = tfs"
proof (induction tfs arbitrary: as)
  case Nil
  then show ?case by simp
next
  case (Cons tf tfs)
  then show ?case
    by (auto split: sum.splits dest: analyzeTemplate_Inr)
qed

lemma main_completed:
  assumes "cdk_out_exists w"
    and "analyzeAll JSON_parse (files w) (templateFiles w) = Inr analyses"
  shows "main JSON_parse w =
           (let R = findReplacements analyses (collectNamedExports analyses)
            in if snd R = 0 then (NoOptimizations, w)
               else (Completed (fst (fold (apply_step (fst R)) analyses (0, files w))),
                     w\<lparr>files := snd (fold (apply_step (fst R)) analyses (0, files w))\<rparr>))"
  using assms by (simp add: main_def Let_def split_beta)

text \<open>
  C6. No-op preservation: a document whose scanned references (possibly none) all have
  targets without an entry in the replacement map is not written back; the text of its file
  after the run is the text before the run. The paths that \<^verbatim>\<open>findTemplateFiles\<close> returns
  are distinct.
\<close>

theorem unmatched_document_not_written:
  assumes "analyzeAll JSON_parse (files w) (templateFiles w) = Inr analyses"
    and "distinct (templateFiles w)"
    and "a \<in> set analyses"
    and "\<forall>imp \<in> set (imports_found a).
           map_of (fst (findReplacements analyses (collectNamedExports analyses)))
             (import_value imp) = None"
  shows "files (snd (main JSON_parse w)) (filePath a) = files w (filePath a)"
proof (cases "cdk_out_exists w")
  case False
  then show ?thesis by (simp add: main_def)
next
  case True
  let ?R = "fst (findReplacements analyses (collectNamedExports analyses))"
  have inj: "distinct (map filePath analyses)"
    using analyzeAll_filePaths [OF assms(1)] assms(2) by simp
  have "\<forall>imp \<in> set (imports_found b). \<not> has_replacement ?R (import_value imp)"
    if "b \<in> set analyses" "filePath b = filePath a" for b
  proof -
    from inj that assms(3) have "b = a"
      by (meson distinct_map inj_onD)
    with assms(4) show ?thesis by (simp add: has_replacement_def)
  qed
  then have "\<forall>b \<in> set analyses. filePath b = filePath a \<longrightarrow>
        (\<forall>imp \<in> set (imports_found b). \<not> has_replacement ?R (import_value imp))"
    by blast
  then have "snd (fold (apply_step ?R) analyses (0, files w)) (filePath a) = files w (filePath a)"
    using fold_apply_step_untouched [of analyses "filePath a" ?R "(0, files w)"] by simp
  then show ?thesis
    by (simp add: main_completed [OF True assms(1)] Let_def)
qed

theorem unmatched_document_not_written_witness:
  "analyzeAll parse_table (files world_xy) (templateFiles world_xy) = Inr (analyses_of world_xy)
   \<and> distinct (templateFiles world_xy)
   \<and> analyses_of world_xy ! 1 \<in> set (analyses_of world_xy)
   \<and> imports_found (analyses_of world_xy ! 1) = []
   \<and> fst (main parse_table world_xy) = Completed 1
   \<and> files (snd (main parse_table world_xy)) ''y.template.json'' = Some text_y"
proof -
  have h1: "analyzeAll parse_table (files world_xy) (templateFiles world_xy) = Inr (analyses_of world_xy)"
    by code_simp
  have h2: "distinct (templateFiles world_xy)"
    by code_simp
  have h3: "analyses_of world_xy ! 1 \<in> set (analyses_of world_xy)"
    by code_simp
  have e: "imports_found (analyses_of world_xy ! 1) = []"
    by code_simp
  then have h4: "\<forall>imp \<in> set (imports_found (analyses_of world_xy ! 1)).
           map_of (fst (findReplacements (analyses_of world_xy) (collectNamedExports (analyses_of world_xy))))
             (import_value imp) = None"
    by simp
  have p: "filePath (analyses_of world_xy ! 1) = ''y.template.json''"
    by code_simp
  have f: "files world_xy ''y.template.json'' = Some text_y"
    by (simp add: world_xy_def)
  have c: "fst (main parse_table world_xy) = Completed 1"
    by code_simp
  show ?thesis
    using h1 h2 h3 e c unmatched_document_not_written [OF h1 h2 h3 h4] unfolding p f by simp
qed

subsection \<open>Completeness of the rewrite\<close>







lemma has_replacement_Some:
  "map_of R s = Some n \<Longrightarrow> n \<noteq> [] \<Longrightarrow> has_replacement R s"
  by (simp add: has_replacement_def)














subsection \<open>Two runs in succession\<close>























end
